theory Spec2Isabelle
  imports
    Complex_Main
    "HOL-Library.Char_ord"
    "HOL-Library.List_Lexorder"
    "HOL-Library.Multiset"
begin

section \<open>Values\<close>

text \<open>
  A pandas timestamp is a count of nanoseconds since 1970-01-01; a \<^verbatim>\<open>Timedelta\<close> is a
  difference of two of them. \<^verbatim>\<open>Timedelta.days\<close> is the floor of the difference in days.
  Amounts and their sums are exact rationals. pandas holds them as int64 or float64, so
  its sums can wrap or round and can depend on the order of summation: that rounding is
  outside this model, and the statements below about sums are statements of exact
  arithmetic on the amounts.
\<close>

type_synonym timestamp = int

definition ns_per_day :: int where
  "ns_per_day = 86400000000000"

definition Timedelta :: "int \<Rightarrow> int" where
  "Timedelta days = days * ns_per_day"

definition td_days :: "int \<Rightarrow> int" where
  "td_days delta = delta div ns_per_day"

text \<open>Days from 1970-01-01 to the civil date \<open>y-m-d\<close> (proleptic Gregorian calendar).\<close>

definition days_from_civil :: "int \<Rightarrow> int \<Rightarrow> int \<Rightarrow> int" where
  "days_from_civil y m d =
     (let y' = (if m \<le> 2 then y - 1 else y);
          era = y' div 400;
          yoe = y' - era * 400;
          doy = (153 * (if m > 2 then m - 3 else m + 9) + 2) div 5 + d - 1;
          doe = yoe * 365 + yoe div 4 - yoe div 100 + doy
      in era * 146097 + doe - 719468)"

text \<open>\<^verbatim>\<open>pd.to_datetime("y-m-d")\<close>: midnight of that day.\<close>

definition Timestamp :: "int \<Rightarrow> int \<Rightarrow> int \<Rightarrow> timestamp" where
  "Timestamp y m d = days_from_civil y m d * ns_per_day"

datatype py_error =
    ValueError_columns      \<comment> \<open>the \<^verbatim>\<open>ValueError\<close> of \<^verbatim>\<open>parse_transactions\<close>: a required column is absent\<close>
  | DateParseError string   \<comment> \<open>\<^verbatim>\<open>pd.to_datetime\<close> met a string that is no date\<close>
  | NaT_error               \<comment> \<open>\<^verbatim>\<open>.date()\<close> or a subtraction on a missing timestamp\<close>
  | ZeroDivisionError

section \<open>Transactions\<close>

text \<open>
  One row of the transactions frame as the report generators receive it. The date and the
  amount are present (\<^verbatim>\<open>parse_transactions\<close> drops the rows where they are not, and the
  sample and the entry form always give them); the category and the description of a row
  read from a CSV file may be missing (\<open>None\<close> is pandas' NaN).
\<close>

record transaction =
  date :: timestamp
  category :: "string option"
  amount :: rat
  description :: "string option"

definition mk_tx :: "timestamp \<Rightarrow> string \<Rightarrow> rat \<Rightarrow> string \<Rightarrow> transaction" where
  "mk_tx d c a s = \<lparr>date = d, category = Some c, amount = a, description = Some s\<rparr>"

definition load_sample_transactions :: "transaction list" where
  "load_sample_transactions =
    [mk_tx (Timestamp 2025 8 1)  ''Food'' 250 ''Lunch'',
     mk_tx (Timestamp 2025 8 2)  ''Transport'' 120 ''Metro'',
     mk_tx (Timestamp 2025 8 3)  ''Groceries'' 1500 ''Weekly groceries'',
     mk_tx (Timestamp 2025 8 5)  ''Entertainment'' 600 ''Movie + snacks'',
     mk_tx (Timestamp 2025 8 7)  ''Subscriptions'' 299 ''Music'',
     mk_tx (Timestamp 2025 8 10) ''Bills'' 2200 ''Electricity'',
     mk_tx (Timestamp 2025 8 15) ''Savings'' (- 5000) ''Monthly saving transfer'',
     mk_tx (Timestamp 2025 8 20) ''Investment'' (- 2000) ''SIP'']"

section \<open>Aggregation\<close>

text \<open>\<^verbatim>\<open>Series.max()\<close> and \<^verbatim>\<open>Series.min()\<close> of a date column: \<open>None\<close> (NaT) when it is empty.\<close>

fun series_max :: "timestamp list \<Rightarrow> timestamp option" where
  "series_max [] = None"
| "series_max (d # ds) = Some (fold max ds d)"

fun series_min :: "timestamp list \<Rightarrow> timestamp option" where
  "series_min [] = None"
| "series_min (d # ds) = Some (fold min ds d)"

text \<open>
  Lines 48 and 49 of \<^verbatim>\<open>summarize_budget\<close>: the rows dated no earlier than 30 days before
  the latest date, or the whole frame when there are none. A comparison with NaT is false
  on every row.
\<close>

definition recent_rows :: "transaction list \<Rightarrow> transaction list" where
  "recent_rows tx =
     (case series_max (map date tx) of
        None \<Rightarrow> []
      | Some mx \<Rightarrow> filter (\<lambda>t. date t \<ge> mx - Timedelta 30) tx)"

definition recent_window :: "transaction list \<Rightarrow> transaction list" where
  "recent_window tx = (let recent = recent_rows tx in if recent = [] then tx else recent)"

text \<open>
  \<^verbatim>\<open>groupby('category')['amount'].sum()\<close>: one entry per category label, the labels in
  ascending order, each with the sum of the amounts of its rows. pandas leaves the rows
  whose category is missing out of every group.
\<close>

definition group_keys :: "transaction list \<Rightarrow> string list" where
  "group_keys tx = sort (remdups (List.map_filter category tx))"

definition groupby_category_sum :: "transaction list \<Rightarrow> (string \<times> rat) list" where
  "groupby_category_sum tx =
     map (\<lambda>k. (k, sum_list (map amount (filter (\<lambda>t. category t = Some k) tx))))
       (group_keys tx)"

text \<open>
  \<^verbatim>\<open>sort_values(ascending=False)\<close> is a library sort: it is the parameter \<open>sort_values\<close> of
  the functions that call it. All that is assumed of it is \<open>descending_sort\<close>: the result
  holds the same entries, in descending order of value. The order among entries of equal
  value is the library's and is left open.
\<close>

type_synonym sorter = "(string \<times> rat) list \<Rightarrow> (string \<times> rat) list"

definition descending_sort :: "sorter \<Rightarrow> bool" where
  "descending_sort sort_values \<longleftrightarrow>
     (\<forall>s. mset (sort_values s) = mset s
          \<and> sorted_wrt (\<lambda>a b. snd b \<le> snd a) (sort_values s))"

text \<open>One such sort, on which the examples are evaluated: the stable one.\<close>

definition sort_values_desc :: sorter where
  "sort_values_desc s = sort_key (\<lambda>(c, v). - v) s"

section \<open>Report generators\<close>

text \<open>
  A report is a list of lines joined by newlines. A line built by an f-string is kept as
  its values (the number formatting is not modelled); a literal line is kept as its text.
\<close>

text \<open>
  A percentage \<^verbatim>\<open>(value/total*100).round(1)\<close> is kept as its two operands: the float
  quotient and its rounding are not modelled.
\<close>

datatype percent = Percent rat rat

datatype line =
    Lit string
  | Period timestamp timestamp       \<comment> \<open>first and last date of the window\<close>
  | TotalSpending rat
  | TotalSavings rat
  | CatLine string rat
  | AvgDaily rat
  | SuggestedMonthly rat
  | Ranked nat string rat percent \<comment> \<open>rank, category, amount, percentage\<close>

datatype report = Str string | Lines "line list"

definition total_spent :: "transaction list \<Rightarrow> rat" where
  "total_spent recent = sum_list (map amount (filter (\<lambda>t. amount t > 0) recent))"

definition total_saved :: "transaction list \<Rightarrow> rat" where
  "total_saved recent = - sum_list (map amount (filter (\<lambda>t. amount t < 0) recent))"

text \<open>
  \<^verbatim>\<open>(recent['date'].max() - recent['date'].min()).days\<close>. The extremes of an empty column
  are missing; that case is an error of the model, shown below never to arise.
\<close>

definition window_days :: "transaction list \<Rightarrow> py_error + int" where
  "window_days recent =
     (case (series_max (map date recent), series_min (map date recent)) of
        (Some hi, Some lo) \<Rightarrow> Inr (td_days (hi - lo))
      | _ \<Rightarrow> Inl NaT_error)"

text \<open>
  Division by a count of days. A zero divisor is an error of the model, shown below never
  to arise.
\<close>

definition py_div :: "rat \<Rightarrow> int \<Rightarrow> py_error + rat" where
  "py_div a b = (if b = 0 then Inl ZeroDivisionError else Inr (a / of_int b))"

definition summarize_budget :: "sorter \<Rightarrow> transaction list \<Rightarrow> py_error + report" where
  "summarize_budget sort_values transactions =
     (if transactions = [] then Inr (Str ''No transactions to summarize.'')
      else
        let tx = transactions;
            recent = recent_window tx;
            by_cat = sort_values (groupby_category_sum recent)
        in case (series_min (map date recent), series_max (map date recent)) of
             (Some lo, Some hi) \<Rightarrow>
               (let lines = [Period lo hi,
                             TotalSpending (total_spent recent),
                             TotalSavings (total_saved recent),
                             Lit ''**Top Expense Categories:**'']
                            @ map (\<lambda>(cat, amt). CatLine cat amt)
                                (take 5 (filter (\<lambda>(cat, amt). amt > 0) by_cat))
                in case window_days recent of
                     Inl e \<Rightarrow> Inl e
                   | Inr days \<Rightarrow>
                       (case py_div (total_spent recent) (max 1 days) of
                          Inl e \<Rightarrow> Inl e
                        | Inr avg_daily \<Rightarrow>
                            (case py_div (total_spent recent * 30) (max 1 days) of
                               Inl e \<Rightarrow> Inl e
                             | Inr q \<Rightarrow>
                                 Inr (Lines (lines @ [AvgDaily avg_daily,
                                                      SuggestedMonthly (q * (9 / 10))])))))
           | _ \<Rightarrow> Inl NaT_error)"

text \<open>A profile is a dictionary from field names to values.\<close>

datatype pyval = PStr string | PInt int

type_synonym profile = "string \<Rightarrow> pyval option"

text \<open>
  The dtype of the amount column of a frame. The sample frame and a parsed CSV file have a
  numeric column (int64 or float64). A frame grown by \<^verbatim>\<open>pd.concat\<close> from the empty frame
  of line 147 can have an object column, whose arithmetic is Python's own, element by
  element.
\<close>

datatype dtype = Numeric | Object

text \<open>
  \<^verbatim>\<open>(top/total*100).round(1)\<close> of line 72. On a numeric column a zero total gives values
  that are no finite numbers, and no exception. On an object column the quotients are
  Python's divisions, entry by entry: with a zero total the first entry raises
  \<^verbatim>\<open>ZeroDivisionError\<close>, and an empty \<^verbatim>\<open>top\<close> has no entry to divide. (\<open>top3\<close> is the
  variable \<^verbatim>\<open>top\<close> of the source.)
\<close>

definition top_pct :: "dtype \<Rightarrow> (string \<times> rat) list \<Rightarrow> rat \<Rightarrow> py_error + percent list" where
  "top_pct amount_dtype top3 total_abs =
     (if amount_dtype = Object \<and> total_abs = 0 \<and> top3 \<noteq> [] then Inl ZeroDivisionError
      else Inr (map (\<lambda>(c, v). Percent v total_abs) top3))"

definition over_threshold :: "(string \<times> rat) list \<Rightarrow> string \<Rightarrow> rat \<Rightarrow> bool" where
  "over_threshold by_cat k limit =
     (case map_of by_cat k of None \<Rightarrow> False | Some v \<Rightarrow> v > limit)"

text \<open>The bytes the source file holds for the currency sign and the dashes.\<close>

definition rupee :: string where
  "rupee = [CHR 0xC3, CHR 0xA2, CHR 0xE2, CHR 0x80, CHR 0x9A, CHR 0xC2, CHR 0xB9]"

definition en_dash :: string where
  "en_dash = [CHR 0xC3, CHR 0xA2, CHR 0xE2, CHR 0x82, CHR 0xAC, CHR 0xE2, CHR 0x80, CHR 0x9C]"

definition em_dash :: string where
  "em_dash = [CHR 0xC3, CHR 0xA2, CHR 0xE2, CHR 0x82, CHR 0xAC, CHR 0xE2, CHR 0x80, CHR 0x9D]"

definition by_cat_abs :: "sorter \<Rightarrow> transaction list \<Rightarrow> (string \<times> rat) list" where
  "by_cat_abs sort_values transactions =
     sort_values (map (\<lambda>(c, v). (c, \<bar>v\<bar>)) (groupby_category_sum transactions))"

definition generate_spending_insights ::
  "sorter \<Rightarrow> dtype \<Rightarrow> transaction list \<Rightarrow> profile \<Rightarrow> py_error + report" where
  "generate_spending_insights sort_values amount_dtype transactions profile =
     (if transactions = [] then Inr (Str ''No transactions to analyze.'')
      else
        let by_cat = by_cat_abs sort_values transactions;
            top3 = take 3 by_cat;
            total_abs = sum_list (map (\<lambda>t. \<bar>amount t\<bar>) transactions)
        in case top_pct amount_dtype top3 total_abs of
             Inl e \<Rightarrow> Inl e
           | Inr pcts \<Rightarrow>
               Inr (Lines
                 ([Lit ''**Top Spending Categories:**'']
                  @ map (\<lambda>(i, (cat, amt), p). Ranked i cat amt p)
                      (zip [1 ..< Suc (length top3)] (zip top3 pcts))
                  @ (if over_threshold by_cat ''Subscriptions'' 500
                     then [Lit ''- Consider reviewing unused subscriptions.''] else [])
                  @ (if over_threshold by_cat ''Food'' 2000
                     then [Lit ''- Set weekly limits for dining out.''] else [])
                  @ (if over_threshold by_cat ''Transport'' 1000
                     then [Lit ''- Explore travel cards or carpooling.''] else [])
                  @ (if profile ''user_type'' = Some (PStr ''Student'')
                     then [Lit (''- Build emergency buffer ('' @ rupee @ ''2k'' @ en_dash
                                @ rupee @ ''10k).'')]
                     else [Lit ''- Automate savings and tax-saving investments.'']))))"

definition join_nl :: "string list \<Rightarrow> string" where
  "join_nl ls = concat (case ls of [] \<Rightarrow> [] | l # rest \<Rightarrow> l # map (\<lambda>x. CHR 0x0A # x) rest)"

definition generate_tax_guidance :: "profile \<Rightarrow> report" where
  "generate_tax_guidance profile =
     (let base = [''**Tax Guidance (general educational):**''];
          base = base @ (if profile ''user_type'' = Some (PStr ''Student'')
                         then [''- Check filing threshold for part-time income.'',
                               ''- Keep educational expense receipts.'']
                         else [''- Track salary components & use standard deductions.'',
                               ''- Save proofs for investments (PPF, ELSS, insurance).'']);
          base = base @ [''- Consult a tax professional for accuracy.'']
      in Str (join_nl base))"

section \<open>Tone formatter\<close>

text \<open>
  \<^verbatim>\<open>textwrap.fill(text, width=80)\<close> is a library function: it is the parameter \<open>fill\<close>.
\<close>

definition format_response_for_tone ::
  "(string \<Rightarrow> string) \<Rightarrow> string \<Rightarrow> profile \<Rightarrow> string \<Rightarrow> string" where
  "format_response_for_tone fill text profile complexity =
     (let user_type = (case profile ''user_type'' of None \<Rightarrow> PStr ''Student'' | Some v \<Rightarrow> v);
          complexity = (if complexity = ''Auto''
                        then (if user_type = PStr ''Student'' then ''Simple'' else ''Detailed'')
                        else complexity);
          prefix = (if complexity = ''Simple''
                    then ''Hey! Here'' @ [CHR 0x27] @ ''s a simple version:'' @ [CHR 0x0A, CHR 0x0A]
                    else ''Hello '' @ em_dash @ '' advisory:'' @ [CHR 0x0A, CHR 0x0A])
      in prefix @ fill text)"

section \<open>Intent router\<close>

text \<open>\<^verbatim>\<open>str.lower()\<close> on the ASCII letters; every other byte is kept.\<close>

definition lower_char :: "char \<Rightarrow> char" where
  "lower_char c =
     (let n = (of_char c :: nat) in if 65 \<le> n \<and> n \<le> 90 then char_of (n + 32) else c)"

definition lower :: "string \<Rightarrow> string" where
  "lower s = map lower_char s"

text \<open>\<^verbatim>\<open>sub in s\<close>: \<open>sub\<close> occurs in \<open>s\<close> as a contiguous run.\<close>

fun is_prefix :: "string \<Rightarrow> string \<Rightarrow> bool" where
  "is_prefix [] s = True"
| "is_prefix (a # as) [] = False"
| "is_prefix (a # as) (b # bs) = (a = b \<and> is_prefix as bs)"

fun contains :: "string \<Rightarrow> string \<Rightarrow> bool" where
  "contains sub [] = (sub = [])"
| "contains sub (c # cs) = (is_prefix sub (c # cs) \<or> contains sub cs)"

definition investment_tips :: string where
  "investment_tips =
     ''General investment advice:'' @ [CHR 0x0A] @ ''- Emergency fund'' @ [CHR 0x0A]
     @ ''- Diversified equity/index funds'' @ [CHR 0x0A]
     @ ''- Short-term: liquid funds or FDs''"

definition help_message :: string where
  "help_message = ''I can assist with budget, spending insights, tax basics, or investment tips.''"

text \<open>
  The sort of the library and the dtype of the amount column of \<open>transactions\<close> are
  passed on to the generators that depend on them.
\<close>

definition local_ai_response ::
  "sorter \<Rightarrow> dtype \<Rightarrow> string \<Rightarrow> profile \<Rightarrow> transaction list \<Rightarrow> string
     \<Rightarrow> py_error + report" where
  "local_ai_response sort_values amount_dtype msg profile transactions complexity =
     (let m = lower msg
      in if contains ''budget'' m then summarize_budget sort_values transactions
         else if list_ex (\<lambda>k. contains k m) [''spend'', ''insights'', ''save'']
           then generate_spending_insights sort_values amount_dtype transactions profile
         else if contains ''tax'' m then Inr (generate_tax_guidance profile)
         else if list_ex (\<lambda>k. contains k m) [''invest'', ''sip'']
           then Inr (Str investment_tips)
         else Inr (Str help_message))"

section \<open>Transaction store\<close>

text \<open>
  The frame that \<^verbatim>\<open>pd.read_csv\<close> returns: the column names of the header and the rows.
  A cell is the text of the field, or \<open>None\<close> where the field is empty (NaN). The cells
  of a column that the file does not have are never read.
\<close>

type_synonym cell = "string option"

record raw_row =
  date_cell :: cell
  category_cell :: cell
  amount_cell :: cell
  description_cell :: cell

record raw_table =
  columns :: "string list"
  rows :: "raw_row list"

definition required :: "string set" where
  "required = {''date'', ''category'', ''amount''}"

text \<open>
  \<^verbatim>\<open>pd.to_datetime(column)\<close> with its default \<^verbatim>\<open>errors='raise'\<close>: an empty cell becomes
  NaT (\<open>None\<close>), a text that the date parser \<open>parse_date\<close> rejects raises. The date
  parser of the library is a parameter.
\<close>

definition cell_date :: "(string \<Rightarrow> timestamp option) \<Rightarrow> cell \<Rightarrow> py_error + timestamp option" where
  "cell_date parse_date c =
     (case c of
        None \<Rightarrow> Inr None
      | Some s \<Rightarrow> (case parse_date s of None \<Rightarrow> Inl (DateParseError s) | Some d \<Rightarrow> Inr (Some d)))"

fun to_datetime ::
  "(string \<Rightarrow> timestamp option) \<Rightarrow> cell list \<Rightarrow> py_error + timestamp option list" where
  "to_datetime parse_date [] = Inr []"
| "to_datetime parse_date (c # cs) =
     (case cell_date parse_date c of
        Inl e \<Rightarrow> Inl e
      | Inr d \<Rightarrow>
          (case to_datetime parse_date cs of Inl e \<Rightarrow> Inl e | Inr ds \<Rightarrow> Inr (d # ds)))"

text \<open>
  \<^verbatim>\<open>pd.to_numeric(column, errors='coerce')\<close>: an empty cell and a text that the number
  parser \<open>parse_num\<close> rejects both become NaN (\<open>None\<close>). The number parser of the
  library is a parameter.
\<close>

definition cell_num :: "(string \<Rightarrow> rat option) \<Rightarrow> cell \<Rightarrow> rat option" where
  "cell_num parse_num c = (case c of None \<Rightarrow> None | Some s \<Rightarrow> parse_num s)"

definition to_numeric_coerce :: "(string \<Rightarrow> rat option) \<Rightarrow> cell list \<Rightarrow> rat option list" where
  "to_numeric_coerce parse_num cs = map (cell_num parse_num) cs"

text \<open>\<^verbatim>\<open>dropna(subset=['amount','date'])\<close> on the rows with their coerced date and amount.\<close>

fun dropna :: "(raw_row \<times> timestamp option \<times> rat option) list \<Rightarrow> transaction list" where
  "dropna [] = []"
| "dropna ((r, Some d, Some a) # rest) =
     \<lparr>date = d, category = category_cell r, amount = a, description = description_cell r\<rparr>
     # dropna rest"
| "dropna (_ # rest) = dropna rest"

definition parse_transactions ::
  "(string \<Rightarrow> timestamp option) \<Rightarrow> (string \<Rightarrow> rat option) \<Rightarrow> raw_table
     \<Rightarrow> py_error + transaction list" where
  "parse_transactions parse_date parse_num df =
     (if \<not> required \<subseteq> set (columns df) then Inl ValueError_columns
      else
        case to_datetime parse_date (map date_cell (rows df)) of
          Inl e \<Rightarrow> Inl e
        | Inr dates \<Rightarrow>
            (let amounts = to_numeric_coerce parse_num (map amount_cell (rows df))
             in Inr (dropna (zip (rows df) (zip dates amounts)))))"

section \<open>Example inputs\<close>

text \<open>A frame whose rows all fall on one day: its window spans zero days.\<close>

definition single_day_transactions :: "transaction list" where
  "single_day_transactions = [mk_tx (Timestamp 2025 8 1) ''Food'' 100 ''Lunch'']"

text \<open>A frame with one row whose category field was empty in the CSV file.\<close>

definition uncategorised_transactions :: "transaction list" where
  "uncategorised_transactions =
     [\<lparr>date = Timestamp 2025 8 1, category = None, amount = 100, description = None\<rparr>]"

text \<open>
  The rows of the frame that the entry form gives when its default values (category
  "Misc", amount 0) are submitted once, starting from the empty frame.
\<close>

definition form_default_transactions :: "transaction list" where
  "form_default_transactions = [mk_tx (Timestamp 2025 8 1) ''Misc'' 0 []]"

text \<open>
  A frame with several rows in one category, and with a category whose signed sum
  (- 4000) differs from the sum of its absolute values (6000).
\<close>

definition repeated_category_transactions :: "transaction list" where
  "repeated_category_transactions =
     [mk_tx (Timestamp 2025 8 1) ''Food'' 1500 ''Dinner'',
      mk_tx (Timestamp 2025 8 2) ''Bills'' 2200 ''Electricity'',
      mk_tx (Timestamp 2025 8 3) ''Food'' 1499 ''Lunch'',
      mk_tx (Timestamp 2025 8 4) ''Savings'' (- 5000) ''Transfer'',
      mk_tx (Timestamp 2025 8 5) ''Savings'' 1000 ''Withdrawal'']"

text \<open>A profile dictionary without the \<^verbatim>\<open>user_type\<close> key.\<close>

definition anonymous_profile :: profile where
  "anonymous_profile = [''name'' \<mapsto> PStr ''Alex'', ''age'' \<mapsto> PInt 30]"

text \<open>
  Two parsers for the example tables: dates in the ISO form YYYY-MM-DD and amounts as
  decimal integers with an optional minus sign. Both forms are among those that the
  library parsers accept; a text with no digit is rejected by both, as the library does.
\<close>

definition digit :: "char \<Rightarrow> int option" where
  "digit c = (let n = (of_char c :: int) in if 48 \<le> n \<and> n \<le> 57 then Some (n - 48) else None)"

fun digits_val :: "int \<Rightarrow> string \<Rightarrow> int option" where
  "digits_val acc [] = Some acc"
| "digits_val acc (c # cs) =
     (case digit c of None \<Rightarrow> None | Some d \<Rightarrow> digits_val (acc * 10 + d) cs)"

definition parse_digits :: "string \<Rightarrow> int option" where
  "parse_digits s = (if s = [] then None else digits_val 0 s)"

definition parse_date_iso :: "string \<Rightarrow> timestamp option" where
  "parse_date_iso s =
     (if length s = 10 \<and> s ! 4 = CHR ''-'' \<and> s ! 7 = CHR ''-''
      then (case (parse_digits (take 4 s), parse_digits (take 2 (drop 5 s)),
                  parse_digits (drop 8 s)) of
              (Some y, Some m, Some d) \<Rightarrow>
                if 1 \<le> m \<and> m \<le> 12 \<and> 1 \<le> d \<and> d \<le> 31
                then Some (Timestamp y m d) else None
            | _ \<Rightarrow> None)
      else None)"

definition parse_num_int :: "string \<Rightarrow> rat option" where
  "parse_num_int s =
     (case s of
        [] \<Rightarrow> None
      | c # r \<Rightarrow>
          if c = CHR ''-'' then map_option (\<lambda>n. - of_int n) (parse_digits r)
          else map_option of_int (parse_digits s))"

definition mk_row :: "string \<Rightarrow> string \<Rightarrow> string \<Rightarrow> raw_row" where
  "mk_row d c a =
     \<lparr>date_cell = Some d, category_cell = Some c, amount_cell = Some a,
      description_cell = None\<rparr>"

text \<open>A table without the \<^verbatim>\<open>category\<close> column.\<close>

definition no_category_table :: raw_table where
  "no_category_table =
     \<lparr>columns = [''date'', ''amount''],
      rows = [\<lparr>date_cell = Some ''2025-08-01'', category_cell = None,
               amount_cell = Some ''250'', description_cell = None\<rparr>]\<rparr>"

text \<open>A table whose second row has an amount that is no number.\<close>

definition bad_amount_table :: raw_table where
  "bad_amount_table =
     \<lparr>columns = [''date'', ''category'', ''amount''],
      rows = [mk_row ''2025-08-01'' ''Food'' ''250'',
              mk_row ''2025-08-02'' ''Transport'' ''abc'',
              mk_row ''2025-08-15'' ''Savings'' ''-5000'']\<rparr>"

text \<open>A table whose first row has a date that is no date.\<close>

definition bad_date_table :: raw_table where
  "bad_date_table =
     \<lparr>columns = [''date'', ''category'', ''amount''],
      rows = [mk_row ''not-a-date'' ''Food'' ''10'',
              mk_row ''2025-08-01'' ''Food'' ''20'']\<rparr>"

text \<open>A table whose first row has an empty date field.\<close>

definition empty_date_table :: raw_table where
  "empty_date_table =
     \<lparr>columns = [''date'', ''category'', ''amount''],
      rows = [\<lparr>date_cell = None, category_cell = Some ''Food'',
               amount_cell = Some ''10'', description_cell = None\<rparr>,
              mk_row ''2025-08-01'' ''Food'' ''20'']\<rparr>"

section \<open>Properties\<close>

lemma fold_max_ge: "(a::int) \<le> fold max ds a"
  by (induction ds arbitrary: a) (auto intro: order_trans [OF max.cobounded2])

lemma fold_max_upper: "x \<in> set ds \<Longrightarrow> (x::int) \<le> fold max ds a"
proof (induction ds arbitrary: a)
  case Nil
  then show ?case by simp
next
  case (Cons d ds)
  show ?case
  proof (cases "x = d")
    case True
    have "d \<le> max d a" by simp
    also have "\<dots> \<le> fold max ds (max d a)" by (rule fold_max_ge)
    finally show ?thesis using True by simp
  next
    case False
    with Cons show ?thesis by simp
  qed
qed

lemma fold_max_mem: "fold max ds (a::int) \<in> set (a # ds)"
proof (induction ds arbitrary: a)
  case Nil
  then show ?case by simp
next
  case (Cons d ds)
  have "fold max ds (max d a) \<in> set (max d a # ds)" by (rule Cons.IH)
  moreover have "max d a = d \<or> max d a = a" by (simp add: max_def)
  ultimately show ?case by auto
qed

lemma series_max_Max:
  "ds \<noteq> [] \<Longrightarrow> series_max ds = Some (Max (set ds))"
proof (cases ds)
  case Nil
  assume "ds \<noteq> []"
  with Nil show ?thesis by simp
next
  case (Cons d ds')
  have "fold max ds' d = Max (set (d # ds'))"
  proof (rule sym, rule Max_eqI)
    show "finite (set (d # ds'))" by simp
    show "\<And>y. y \<in> set (d # ds') \<Longrightarrow> y \<le> fold max ds' d"
      using fold_max_ge [of d ds'] fold_max_upper [of _ ds' d] by auto
    show "fold max ds' d \<in> set (d # ds')" by (rule fold_max_mem)
  qed
  with Cons show ?thesis by simp
qed

lemma Timedelta_30_nonneg: "0 \<le> Timedelta 30"
  by (simp add: Timedelta_def ns_per_day_def)

lemma recent_rows_nonempty:
  assumes "tx \<noteq> []"
  shows "recent_rows tx \<noteq> []"
proof -
  from assms have ne: "map date tx \<noteq> []" by simp
  let ?mx = "Max (set (map date tx))"
  have "?mx \<in> set (map date tx)"
    using ne by (intro Max_in) auto
  then obtain t where t: "t \<in> set tx" "date t = ?mx" by auto
  have "date t \<ge> ?mx - Timedelta 30"
    using t(2) Timedelta_30_nonneg by simp
  with t(1) have "filter (\<lambda>t. date t \<ge> ?mx - Timedelta 30) tx \<noteq> []"
    unfolding filter_empty_conv by blast
  then show ?thesis
    by (simp add: recent_rows_def series_max_Max [OF ne])
qed

text \<open>
  C1. The reporting window of the Budget Summary is empty only when the frame is empty;
  for a non-empty frame it is exactly the rows dated no earlier than 30 days before the
  latest date, which always include the latest row.
\<close>

theorem C1_recent_window_nonempty:
  "(recent_window tx = [] \<longleftrightarrow> tx = []) \<and>
   (tx \<noteq> [] \<longrightarrow>
      recent_window tx =
        filter (\<lambda>t. date t \<ge> Max (set (map date tx)) - Timedelta 30) tx)"
proof (cases "tx = []")
  case True
  then show ?thesis by (simp add: recent_window_def recent_rows_def)
next
  case False
  then have ne: "map date tx \<noteq> []" by simp
  have r: "recent_rows tx \<noteq> []" by (rule recent_rows_nonempty [OF False])
  have "recent_rows tx = filter (\<lambda>t. date t \<ge> Max (set (map date tx)) - Timedelta 30) tx"
    by (simp add: recent_rows_def series_max_Max [OF ne])
  with r False show ?thesis by (simp only: recent_window_def Let_def) simp
qed

theorem C1_recent_window_nonempty_witness:
  "load_sample_transactions \<noteq> [] \<and> recent_window load_sample_transactions \<noteq> []"
proof -
  have ne: "load_sample_transactions \<noteq> []"
    by (simp add: load_sample_transactions_def)
  with C1_recent_window_nonempty [of load_sample_transactions] show ?thesis by blast
qed

lemma fold_min_le: "fold min ds (a::int) \<le> a"
  by (induction ds arbitrary: a) (auto intro: order_trans [OF _ min.cobounded2])

lemma fold_min_lower: "x \<in> set ds \<Longrightarrow> fold min ds a \<le> (x::int)"
proof (induction ds arbitrary: a)
  case Nil
  then show ?case by simp
next
  case (Cons d ds)
  show ?case
  proof (cases "x = d")
    case True
    have "fold min ds (min d a) \<le> min d a" by (rule fold_min_le)
    also have "\<dots> \<le> d" by simp
    finally show ?thesis using True by simp
  next
    case False
    with Cons show ?thesis by simp
  qed
qed

lemma fold_min_mem: "fold min ds (a::int) \<in> set (a # ds)"
proof (induction ds arbitrary: a)
  case Nil
  then show ?case by simp
next
  case (Cons d ds)
  have "fold min ds (min d a) \<in> set (min d a # ds)" by (rule Cons.IH)
  moreover have "min d a = d \<or> min d a = a" by (simp add: min_def)
  ultimately show ?case by auto
qed

lemma series_min_Min:
  "ds \<noteq> [] \<Longrightarrow> series_min ds = Some (Min (set ds))"
proof (cases ds)
  case Nil
  assume "ds \<noteq> []"
  with Nil show ?thesis by simp
next
  case (Cons d ds')
  have "fold min ds' d = Min (set (d # ds'))"
  proof (rule sym, rule Min_eqI)
    show "finite (set (d # ds'))" by simp
    show "\<And>y. y \<in> set (d # ds') \<Longrightarrow> fold min ds' d \<le> y"
      using fold_min_le [of ds' d] fold_min_lower [of _ ds' d] by auto
    show "fold min ds' d \<in> set (d # ds')" by (rule fold_min_mem)
  qed
  with Cons show ?thesis by simp
qed

lemma recent_window_nonempty: "tx \<noteq> [] \<Longrightarrow> recent_window tx \<noteq> []"
  using recent_rows_nonempty [of tx] by (simp add: recent_window_def Let_def)

lemma window_days_value:
  assumes "w \<noteq> []"
  shows "window_days w = Inr (td_days (Max (set (map date w)) - Min (set (map date w))))"
proof -
  from assms have ne: "map date w \<noteq> []" by simp
  show ?thesis
    by (simp add: window_days_def series_max_Max [OF ne] series_min_Min [OF ne])
qed

lemma ns_per_day_pos: "0 < ns_per_day"
  by (simp add: ns_per_day_def)

lemma window_span_nonneg:
  assumes "w \<noteq> []"
  shows "0 \<le> td_days (Max (set (map date w)) - Min (set (map date w)))"
proof -
  from assms obtain t ts where "w = t # ts" by (cases w) auto
  then have x: "date t \<in> set (map date w)" by simp
  define x where "x = date t"
  note x = x [folded x_def]
  have "Min (set (map date w)) \<le> x" using x by (intro Min_le) auto
  also have "x \<le> Max (set (map date w))" using x by (intro Max_ge) auto
  finally have "Min (set (map date w)) \<le> Max (set (map date w))" .
  then show ?thesis
    unfolding td_days_def using ns_per_day_pos by (simp add: pos_imp_zdiv_nonneg_iff)
qed

lemma py_div_max1: "py_div a (max 1 d) = Inr (a / of_int (max 1 d))"
  by (simp add: py_div_def max_def)

lemma sum_list_one_key:
  "distinct ks \<Longrightarrow>
   sum_list (map (\<lambda>k. if c = Some k then (a::rat) else 0) ks) =
     (if \<exists>k\<in>set ks. c = Some k then a else 0)"
  by (induction ks) auto

lemma group_sums_split:
  assumes "distinct ks"
  shows "sum_list (map (\<lambda>k. sum_list (map amount (filter (\<lambda>t. category t = Some k) tx))) ks) =
         sum_list (map amount (filter (\<lambda>t. \<exists>k\<in>set ks. category t = Some k) tx))"
proof (induction tx)
  case Nil
  then show ?case by simp
next
  case (Cons t tx)
  have "sum_list (map (\<lambda>k. sum_list (map amount (filter (\<lambda>t. category t = Some k) (t # tx)))) ks) =
        sum_list (map (\<lambda>k. (if category t = Some k then amount t else 0)
                    + sum_list (map amount (filter (\<lambda>t. category t = Some k) tx))) ks)"
    by (intro arg_cong [where f = sum_list] map_cong) auto
  also have "\<dots> = sum_list (map (\<lambda>k. if category t = Some k then amount t else 0) ks)
        + sum_list (map (\<lambda>k. sum_list (map amount (filter (\<lambda>t. category t = Some k) tx))) ks)"
    by (simp add: sum_list_addf)
  also have "\<dots> = (if \<exists>k\<in>set ks. category t = Some k then amount t else 0)
        + sum_list (map amount (filter (\<lambda>t. \<exists>k\<in>set ks. category t = Some k) tx))"
    by (simp only: sum_list_one_key [OF assms] Cons.IH)
  also have "\<dots> = sum_list (map amount (filter (\<lambda>t. \<exists>k\<in>set ks. category t = Some k) (t # tx)))"
    by simp
  finally show ?case .
qed

lemma distinct_group_keys: "distinct (group_keys tx)"
  by (simp add: group_keys_def)

lemma set_map_filter_category:
  "set (List.map_filter category tx) = {k. \<exists>t\<in>set tx. category t = Some k}"
  by (induction tx) (auto split: option.splits)

lemma set_group_keys: "set (group_keys tx) = {k. \<exists>t\<in>set tx. category t = Some k}"
  by (simp add: group_keys_def set_map_filter_category)

lemma groupby_sum_total:
  "sum_list (map snd (groupby_category_sum tx)) =
   sum_list (map amount (filter (\<lambda>t. category t \<noteq> None) tx))"
proof -
  have "map snd (groupby_category_sum tx) =
        map (\<lambda>k. sum_list (map amount (filter (\<lambda>t. category t = Some k) tx))) (group_keys tx)"
    by (simp add: groupby_category_sum_def comp_def)
  moreover have "filter (\<lambda>t. \<exists>k\<in>set (group_keys tx). category t = Some k) tx =
                 filter (\<lambda>t. category t \<noteq> None) tx"
    by (rule filter_cong) (auto simp: set_group_keys)
  ultimately show ?thesis
    using group_sums_split [OF distinct_group_keys, of tx tx] by simp
qed

lemma sort_values_desc_sorted: "sorted_wrt (\<lambda>a b. snd b \<le> snd a) (sort_values_desc s)"
proof -
  have "sorted (map (\<lambda>(c, v). - v) (sort_values_desc s))"
    unfolding sort_values_desc_def by (rule sorted_sort_key)
  then show ?thesis
    by (simp add: sorted_map case_prod_unfold)
qed

lemma sort_values_desc_mset: "mset (sort_values_desc s) = mset s"
  by (simp add: sort_values_desc_def)

lemma sort_values_desc_descending: "descending_sort sort_values_desc"
  unfolding descending_sort_def
  using sort_values_desc_sorted sort_values_desc_mset by blast

lemma descending_sort_mset: "descending_sort sv \<Longrightarrow> mset (sv s) = mset s"
  by (simp add: descending_sort_def)

lemma descending_sort_sorted:
  "descending_sort sv \<Longrightarrow> sorted_wrt (\<lambda>a b. snd b \<le> snd a) (sv s)"
  by (simp add: descending_sort_def)

lemma descending_sort_set: "descending_sort sv \<Longrightarrow> set (sv s) = set s"
  using descending_sort_mset [of sv s] by (rule mset_eq_setD)

lemma filter_singleton:
  "distinct xs \<Longrightarrow> k \<in> set xs \<Longrightarrow> (\<And>x. x \<in> set xs \<Longrightarrow> P x \<longleftrightarrow> x = k) \<Longrightarrow>
   filter P xs = [k]"
proof (induction xs)
  case Nil
  then show ?case by simp
next
  case (Cons a xs)
  show ?case
  proof (cases "a = k")
    case True
    with Cons.prems(1) have "k \<notin> set xs" by simp
    with Cons.prems(3) have "\<forall>x\<in>set xs. \<not> P x" by auto
    then have "filter P xs = []" by (simp add: filter_empty_conv)
    moreover have "P a" using Cons.prems(3) [of a] True by simp
    ultimately show ?thesis using True by simp
  next
    case False
    with Cons.prems have a: "k \<in> set xs" and b: "distinct xs" by auto
    have c: "\<And>x. x \<in> set xs \<Longrightarrow> P x \<longleftrightarrow> x = k" using Cons.prems(3) by simp
    have "filter P xs = [k]" by (rule Cons.IH [OF b a c])
    moreover have "\<not> P a" using Cons.prems(3) [of a] False by simp
    ultimately show ?thesis by simp
  qed
qed

text \<open>
  Where no two entries have the same value the descending order is unique: every
  descending sort returns what the stable one returns.
\<close>

lemma descending_sort_unique:
  assumes sv: "descending_sort sv" and dist: "distinct (map snd s)"
  shows "sv s = sort_values_desc s"
proof -
  let ?f = "\<lambda>(c :: string, v :: rat). - v"
  have m: "mset (sv s) = mset s" by (rule descending_sort_mset [OF sv])
  have st: "set (sv s) = set s" by (rule descending_sort_set [OF sv])
  have d: "distinct s" using dist by (simp add: distinct_map)
  have inj: "inj_on snd (set s)" using dist by (simp add: distinct_map)
  have ds: "distinct (sv s)" using mset_eq_imp_distinct_iff [OF m] d by simp
  have key: "\<And>k x. k \<in> set s \<Longrightarrow> x \<in> set s \<Longrightarrow> (?f k = ?f x) \<longleftrightarrow> x = k"
  proof -
    fix k x assume "k \<in> set s" "x \<in> set s"
    with inj have "snd k = snd x \<longleftrightarrow> k = x" by (auto dest: inj_onD)
    then show "(?f k = ?f x) \<longleftrightarrow> x = k" by (auto simp: case_prod_unfold)
  qed
  have "sort_key ?f s = sv s"
  proof (rule properties_for_sort_key)
    show "mset (sv s) = mset s" by (rule m)
    show "sorted (map ?f (sv s))"
      using descending_sort_sorted [OF sv, of s] by (simp add: sorted_map case_prod_unfold)
    fix k assume k: "k \<in> set (sv s)"
    then have ks: "k \<in> set s" using st by simp
    have "filter (\<lambda>x. ?f k = ?f x) (sv s) = [k]"
      using ds k key [OF ks] st by (intro filter_singleton) auto
    moreover have "filter (\<lambda>x. ?f k = ?f x) s = [k]"
      using d ks key [OF ks] by (intro filter_singleton) auto
    ultimately show "filter (\<lambda>x. ?f k = ?f x) (sv s) = filter (\<lambda>x. ?f k = ?f x) s" by simp
  qed
  then show ?thesis by (simp add: sort_values_desc_def)
qed

lemma summarize_budget_nonempty:
  assumes "tx \<noteq> []"
  shows "summarize_budget sv tx =
    Inr (Lines
      ([Period (Min (set (map date (recent_window tx)))) (Max (set (map date (recent_window tx)))),
        TotalSpending (total_spent (recent_window tx)),
        TotalSavings (total_saved (recent_window tx)),
        Lit ''**Top Expense Categories:**'']
       @ map (\<lambda>(cat, amt). CatLine cat amt)
           (take 5 (filter (\<lambda>(cat, amt). amt > 0)
              (sv (groupby_category_sum (recent_window tx)))))
       @ [AvgDaily (total_spent (recent_window tx) /
            of_int (max 1 (td_days (Max (set (map date (recent_window tx)))
                                    - Min (set (map date (recent_window tx))))))),
          SuggestedMonthly (total_spent (recent_window tx) * 30 /
            of_int (max 1 (td_days (Max (set (map date (recent_window tx)))
                                    - Min (set (map date (recent_window tx)))))) * (9 / 10))]))"
proof -
  have w: "recent_window tx \<noteq> []" by (rule recent_window_nonempty [OF assms])
  then have ne: "map date (recent_window tx) \<noteq> []" by simp
  show ?thesis
    unfolding summarize_budget_def Let_def
    by (simp only: assms if_False series_max_Max [OF ne] series_min_Min [OF ne]
          window_days_value [OF w] py_div_max1 prod.case option.case sum.case append_assoc)
qed

lemma summarize_budget_sort_cong:
  assumes "sv (groupby_category_sum (recent_window tx)) =
           sv' (groupby_category_sum (recent_window tx))"
  shows "summarize_budget sv tx = summarize_budget sv' tx"
proof (cases "tx = []")
  case True
  then show ?thesis by (simp add: summarize_budget_def)
next
  case False
  show ?thesis
    unfolding summarize_budget_nonempty [OF False] by (simp only: assms)
qed

lemma sample_nonempty: "load_sample_transactions \<noteq> []"
  by (simp add: load_sample_transactions_def)

lemma sample_report_stable:
  "summarize_budget sort_values_desc load_sample_transactions =
     Inr (Lines
       [Period (Timestamp 2025 8 1) (Timestamp 2025 8 20),
        TotalSpending 4969,
        TotalSavings 7000,
        Lit ''**Top Expense Categories:**'',
        CatLine ''Bills'' 2200, CatLine ''Groceries'' 1500,
        CatLine ''Entertainment'' 600, CatLine ''Subscriptions'' 299,
        CatLine ''Food'' 250,
        AvgDaily (4969 / 19),
        SuggestedMonthly (134163 / 19)])"
  by code_simp

lemma sample_group_values_distinct:
  "distinct (map snd (groupby_category_sum (recent_window load_sample_transactions)))"
  by code_simp

lemma sample_totals:
  "total_spent (recent_window load_sample_transactions) = 4969"
  "total_saved (recent_window load_sample_transactions) = 7000"
  by code_simp+

lemma sample_span:
  "series_min (map date (recent_window load_sample_transactions)) = Some (Timestamp 2025 8 1)"
  "series_max (map date (recent_window load_sample_transactions)) = Some (Timestamp 2025 8 20)"
  "window_days (recent_window load_sample_transactions) = Inr 19"
  by code_simp+

text \<open>
  C5. On the eight sample rows of August 2025 the Budget Summary reports a total spend of
  250 + 120 + 1500 + 600 + 299 + 2200 = 4969 and a total saved of 5000 + 2000 = 7000,
  whatever the sort of the library is; with a descending sort the whole report is
  determined.
\<close>

theorem C5_sample_budget_totals:
  "(\<exists>cats. summarize_budget sort_values load_sample_transactions =
       Inr (Lines
         ([Period (Timestamp 2025 8 1) (Timestamp 2025 8 20),
           TotalSpending 4969,
           TotalSavings 7000,
           Lit ''**Top Expense Categories:**'']
          @ cats
          @ [AvgDaily (4969 / 19), SuggestedMonthly (134163 / 19)])))
   \<and> (descending_sort sort_values \<longrightarrow>
        summarize_budget sort_values load_sample_transactions =
          Inr (Lines
            [Period (Timestamp 2025 8 1) (Timestamp 2025 8 20),
             TotalSpending 4969,
             TotalSavings 7000,
             Lit ''**Top Expense Categories:**'',
             CatLine ''Bills'' 2200, CatLine ''Groceries'' 1500,
             CatLine ''Entertainment'' 600, CatLine ''Subscriptions'' 299,
             CatLine ''Food'' 250,
             AvgDaily (4969 / 19),
             SuggestedMonthly (134163 / 19)]))
   \<and> total_spent (recent_window load_sample_transactions) = 250 + 120 + 1500 + 600 + 299 + 2200
   \<and> total_saved (recent_window load_sample_transactions) = 5000 + 2000"
proof (intro conjI impI)
  let ?w = "recent_window load_sample_transactions"
  have "summarize_budget sort_values load_sample_transactions =
       Inr (Lines
         ([Period (Timestamp 2025 8 1) (Timestamp 2025 8 20),
           TotalSpending 4969,
           TotalSavings 7000,
           Lit ''**Top Expense Categories:**'']
          @ map (\<lambda>(cat, amt). CatLine cat amt)
              (take 5 (filter (\<lambda>(cat, amt). amt > 0) (sort_values (groupby_category_sum ?w))))
          @ [AvgDaily (4969 / 19), SuggestedMonthly (134163 / 19)]))"
    unfolding summarize_budget_def Let_def
    by (simp add: sample_nonempty sample_totals sample_span py_div_def)
  then show "\<exists>cats. summarize_budget sort_values load_sample_transactions =
       Inr (Lines
         ([Period (Timestamp 2025 8 1) (Timestamp 2025 8 20),
           TotalSpending 4969,
           TotalSavings 7000,
           Lit ''**Top Expense Categories:**'']
          @ cats
          @ [AvgDaily (4969 / 19), SuggestedMonthly (134163 / 19)]))"
    by (rule exI)
next
  assume sv: "descending_sort sort_values"
  have "sort_values (groupby_category_sum (recent_window load_sample_transactions)) =
        sort_values_desc (groupby_category_sum (recent_window load_sample_transactions))"
    by (rule descending_sort_unique [OF sv sample_group_values_distinct])
  then have "summarize_budget sort_values load_sample_transactions =
             summarize_budget sort_values_desc load_sample_transactions"
    by (rule summarize_budget_sort_cong)
  then show "summarize_budget sort_values load_sample_transactions =
          Inr (Lines
            [Period (Timestamp 2025 8 1) (Timestamp 2025 8 20),
             TotalSpending 4969,
             TotalSavings 7000,
             Lit ''**Top Expense Categories:**'',
             CatLine ''Bills'' 2200, CatLine ''Groceries'' 1500,
             CatLine ''Entertainment'' 600, CatLine ''Subscriptions'' 299,
             CatLine ''Food'' 250,
             AvgDaily (4969 / 19),
             SuggestedMonthly (134163 / 19)])"
    by (simp only: sample_report_stable)
next
  show "total_spent (recent_window load_sample_transactions) = 250 + 120 + 1500 + 600 + 299 + 2200"
    by (simp add: sample_totals)
next
  show "total_saved (recent_window load_sample_transactions) = 5000 + 2000"
    by (simp add: sample_totals)
qed

theorem C5_sample_budget_totals_witness:
  "descending_sort sort_values_desc
   \<and> summarize_budget sort_values_desc load_sample_transactions =
       Inr (Lines
         [Period (Timestamp 2025 8 1) (Timestamp 2025 8 20),
          TotalSpending 4969,
          TotalSavings 7000,
          Lit ''**Top Expense Categories:**'',
          CatLine ''Bills'' 2200, CatLine ''Groceries'' 1500,
          CatLine ''Entertainment'' 600, CatLine ''Subscriptions'' 299,
          CatLine ''Food'' 250,
          AvgDaily (4969 / 19),
          SuggestedMonthly (134163 / 19)])"
  by (intro conjI sort_values_desc_descending
        mp [OF conjunct1 [OF conjunct2 [OF C5_sample_budget_totals [of sort_values_desc]]]
              sort_values_desc_descending])

text \<open>
  C7, as stated, fails where the window spans zero days. For a frame with one row of 100
  the window has zero days and the report suggests 100 * 30 / max(1, 0) * 0.9 = 2700,
  while the quotient 100 * 30 / window_days of the statement has a zero divisor.
\<close>

theorem C7_suggested_budget_counterexample:
  "window_days (recent_window single_day_transactions) = Inr 0
   \<and> summarize_budget sort_values_desc single_day_transactions =
       Inr (Lines
         [Period (Timestamp 2025 8 1) (Timestamp 2025 8 1),
          TotalSpending 100,
          TotalSavings 0,
          Lit ''**Top Expense Categories:**'',
          CatLine ''Food'' 100,
          AvgDaily 100,
          SuggestedMonthly 2700])
   \<and> (2700 :: rat) \<noteq> 100 * 30 / of_int 0 * (9 / 10)"
  by code_simp

text \<open>
  C7, amended. For every non-empty frame the Budget Summary ends with the average daily
  spend, total spend / max(1, window_days), and the suggested monthly budget,
  total spend * 30 / max(1, window_days) * 0.9, where window_days is the whole number of
  days between the first and the last date of the reporting window; both quotients have
  the same divisor, which is at least 1. Amounts are exact rationals.
\<close>

theorem C7_budget_formulas:
  assumes "transactions \<noteq> []"
  shows "\<exists>days head.
     window_days (recent_window transactions) = Inr days
     \<and> days = td_days (Max (set (map date (recent_window transactions)))
                       - Min (set (map date (recent_window transactions))))
     \<and> 0 \<le> days
     \<and> summarize_budget sort_values transactions =
         Inr (Lines (head @
           [AvgDaily (total_spent (recent_window transactions) / of_int (max 1 days)),
            SuggestedMonthly
              (total_spent (recent_window transactions) * 30 / of_int (max 1 days) * (9 / 10))]))"
proof -
  have w: "recent_window transactions \<noteq> []" by (rule recent_window_nonempty [OF assms])
  show ?thesis
    using window_days_value [OF w] window_span_nonneg [OF w]
      summarize_budget_nonempty [OF assms, of sort_values]
    by (metis append_assoc)
qed

theorem C7_budget_formulas_witness:
  "load_sample_transactions \<noteq> [] \<and>
   (\<exists>days head.
     window_days (recent_window load_sample_transactions) = Inr days
     \<and> 0 \<le> days
     \<and> summarize_budget sort_values_desc load_sample_transactions =
         Inr (Lines (head @
           [AvgDaily (total_spent (recent_window load_sample_transactions) / of_int (max 1 days)),
            SuggestedMonthly
              (total_spent (recent_window load_sample_transactions) * 30 / of_int (max 1 days)
                 * (9 / 10))])))"
proof -
  from C7_budget_formulas [OF sample_nonempty, of sort_values_desc] show ?thesis
    using sample_nonempty by blast
qed

text \<open>
  What holds of the totality of the generators. On the empty frame the Budget Summary is
  the text "No transactions to summarize." and the Spending Insights are "No
  transactions to analyze."; on every frame the Budget Summary returns a report (neither
  a missing extreme date nor a zero divisor arises), and on every frame with a numeric
  amount column the Spending Insights return a report.
\<close>

lemma top_pct_numeric:
  "top_pct Numeric top3 total_abs = Inr (map (\<lambda>(c, v). Percent v total_abs) top3)"
  by (simp add: top_pct_def)

lemma generators_return:
  "summarize_budget sv [] = Inr (Str ''No transactions to summarize.'')"
  "generate_spending_insights sv dt [] profile = Inr (Str ''No transactions to analyze.'')"
  "\<exists>r. summarize_budget sv transactions = Inr r"
  "\<exists>r. generate_spending_insights sv Numeric transactions profile = Inr r"
proof -
  show e1: "summarize_budget sv [] = Inr (Str ''No transactions to summarize.'')"
    by (simp add: summarize_budget_def)
  show "generate_spending_insights sv dt [] profile = Inr (Str ''No transactions to analyze.'')"
    by (simp add: generate_spending_insights_def)
  show "\<exists>r. summarize_budget sv transactions = Inr r"
  proof (cases "transactions = []")
    case True
    with e1 show ?thesis by simp
  next
    case False
    from summarize_budget_nonempty [OF False] show ?thesis by blast
  qed
  show "\<exists>r. generate_spending_insights sv Numeric transactions profile = Inr r"
    by (simp add: generate_spending_insights_def Let_def top_pct_numeric)
qed

text \<open>
  On an object column whose amounts are all zero the Spending Insights raise, whatever
  the descending sort is, as soon as one row has a category.
\<close>

lemma insights_zero_total_raises:
  assumes sv: "descending_sort sv"
    and cat: "t \<in> set transactions" "category t = Some k"
    and zero: "sum_list (map (\<lambda>t. \<bar>amount t\<bar>) transactions) = 0"
  shows "generate_spending_insights sv Object transactions profile = Inl ZeroDivisionError"
proof -
  from cat have ne: "transactions \<noteq> []" by auto
  from cat have "k \<in> set (group_keys transactions)" by (auto simp: set_group_keys)
  then have "groupby_category_sum transactions \<noteq> []"
    by (auto simp: groupby_category_sum_def)
  then have "map (\<lambda>(c, v). (c, \<bar>v\<bar>)) (groupby_category_sum transactions) \<noteq> []" by simp
  then have "mset (by_cat_abs sv transactions) \<noteq> {#}"
    unfolding by_cat_abs_def by (simp add: descending_sort_mset [OF sv])
  then have "take 3 (by_cat_abs sv transactions) \<noteq> []" by auto
  then show ?thesis
    using ne zero by (simp add: generate_spending_insights_def Let_def top_pct_def)
qed

text \<open>
  C8 does not hold of the code. The Spending Insights divide by the total of the absolute
  amounts on line 72 with no guard, unlike the two divisions of the Budget Summary, which
  are guarded by max(1, days). On the frame that the entry form builds from the empty
  frame when its default amount 0 is submitted, the amount column is an object column and
  the total is 0: the division raises ZeroDivisionError, from the generator and from the
  router. On a numeric column the same rows give a report.
\<close>

theorem C8_insights_zero_total_raises:
  "generate_spending_insights sort_values_desc Object form_default_transactions anonymous_profile
     = Inl ZeroDivisionError
   \<and> local_ai_response sort_values_desc Object ''show my spending insights'' anonymous_profile
       form_default_transactions ''Auto'' = Inl ZeroDivisionError
   \<and> generate_spending_insights sort_values_desc Numeric form_default_transactions
       anonymous_profile =
       Inr (Lines [Lit ''**Top Spending Categories:**'',
                   Ranked 1 ''Misc'' 0 (Percent 0 0),
                   Lit ''- Automate savings and tax-saving investments.''])
   \<and> summarize_budget sort_values_desc form_default_transactions =
       Inr (Lines [Period (Timestamp 2025 8 1) (Timestamp 2025 8 1),
                   TotalSpending 0,
                   TotalSavings 0,
                   Lit ''**Top Expense Categories:**'',
                   AvgDaily 0,
                   SuggestedMonthly 0])"
  by code_simp

text \<open>
  C9, as stated, fails on a frame with a row whose category is missing: the grouping
  leaves that row out of every group, so the group sums add up to 0 and not to the
  total of 100.
\<close>

theorem C9_group_sum_counterexample:
  "groupby_category_sum uncategorised_transactions = []
   \<and> sum_list (map snd (groupby_category_sum uncategorised_transactions)) = 0
   \<and> sum_list (map amount uncategorised_transactions) = 100"
  by code_simp

text \<open>
  C9, amended: in exact arithmetic on the amounts. For every frame the per-category
  sums add up to the sum of the amounts of the rows that carry a category label; when
  every row carries one, they add up to the sum of all amounts: no labelled row is lost
  or counted twice. The sums are exact rationals: the rounding of the float64 sums of
  pandas, which can make the two totals differ in the last digit, is not part of this
  statement.
\<close>

theorem C9_group_sums_equal_total:
  "sum_list (map snd (groupby_category_sum transactions)) =
     sum_list (map amount (filter (\<lambda>t. category t \<noteq> None) transactions))
   \<and> ((\<forall>t\<in>set transactions. category t \<noteq> None) \<longrightarrow>
        sum_list (map snd (groupby_category_sum transactions)) =
          sum_list (map amount transactions))"
proof -
  have "(\<forall>t\<in>set transactions. category t \<noteq> None) \<Longrightarrow>
        filter (\<lambda>t. category t \<noteq> None) transactions = transactions"
    by (simp add: filter_id_conv)
  then show ?thesis using groupby_sum_total [of transactions] by auto
qed

theorem C9_group_sums_equal_total_witness:
  "list_all (\<lambda>t. category t \<noteq> None) repeated_category_transactions
   \<and> groupby_category_sum repeated_category_transactions =
       [(''Bills'', 2200), (''Food'', 2999), (''Savings'', - 4000)]
   \<and> sum_list (map snd (groupby_category_sum repeated_category_transactions)) =
       sum_list (map amount repeated_category_transactions)
   \<and> sum_list (map amount repeated_category_transactions) = 1199"
proof -
  have all: "\<forall>t\<in>set repeated_category_transactions. category t \<noteq> None"
    by (simp add: repeated_category_transactions_def mk_tx_def)
  have la: "list_all (\<lambda>t. category t \<noteq> None) repeated_category_transactions"
    using all by (simp add: list_all_iff)
  have g: "groupby_category_sum repeated_category_transactions =
       [(''Bills'', 2200), (''Food'', 2999), (''Savings'', - 4000)]"
    by code_simp
  have tot: "sum_list (map amount repeated_category_transactions) = 1199"
    by (simp add: repeated_category_transactions_def mk_tx_def)
  have eq: "sum_list (map snd (groupby_category_sum repeated_category_transactions)) =
        sum_list (map amount repeated_category_transactions)"
    by (rule mp [OF conjunct2 [OF C9_group_sums_equal_total
                  [of repeated_category_transactions]] all])
  show ?thesis by (intro conjI) (rule la g eq tot)+
qed

lemma by_cat_abs_set:
  assumes "descending_sort sv"
  shows "set (by_cat_abs sv tx) =
         (\<lambda>k. (k, \<bar>sum_list (map amount (filter (\<lambda>t. category t = Some k) tx))\<bar>))
           ` {k. \<exists>t\<in>set tx. category t = Some k}"
proof -
  have "set (by_cat_abs sv tx) = set (map (\<lambda>(c, v). (c, \<bar>v\<bar>)) (groupby_category_sum tx))"
    unfolding by_cat_abs_def by (rule descending_sort_set [OF assms])
  also have "\<dots> = (\<lambda>k. (k, \<bar>sum_list (map amount (filter (\<lambda>t. category t = Some k) tx))\<bar>))
                     ` set (group_keys tx)"
    by (simp add: groupby_category_sum_def image_image)
  finally show ?thesis by (simp add: set_group_keys)
qed

lemma by_cat_abs_keys:
  assumes "descending_sort sv"
  shows "distinct (map fst (by_cat_abs sv tx))"
    and "set (map fst (by_cat_abs sv tx)) = {k. \<exists>t\<in>set tx. category t = Some k}"
proof -
  let ?g = "map (\<lambda>(c, v). (c, \<bar>v\<bar>)) (groupby_category_sum tx)"
  have k: "map fst ?g = group_keys tx"
    by (simp add: groupby_category_sum_def comp_def)
  have "mset (by_cat_abs sv tx) = mset ?g"
    unfolding by_cat_abs_def by (rule descending_sort_mset [OF assms])
  then have "mset (map fst (by_cat_abs sv tx)) = mset (map fst ?g)"
    by (metis mset_map)
  then have m: "mset (map fst (by_cat_abs sv tx)) = mset (group_keys tx)"
    by (simp only: k)
  show "distinct (map fst (by_cat_abs sv tx))"
    using mset_eq_imp_distinct_iff [OF m] distinct_group_keys by simp
  show "set (map fst (by_cat_abs sv tx)) = {k. \<exists>t\<in>set tx. category t = Some k}"
    using mset_eq_setD [OF m] by (simp only: set_group_keys)
qed

lemma insights_numeric_nonempty:
  assumes "transactions \<noteq> []"
  shows "\<exists>rest. generate_spending_insights sv Numeric transactions profile =
     Inr (Lines (Lit ''**Top Spending Categories:**''
            # map (\<lambda>(i, (cat, amt), p). Ranked i cat amt p)
                (zip [1 ..< Suc (length (take 3 (by_cat_abs sv transactions)))]
                   (zip (take 3 (by_cat_abs sv transactions))
                      (map (\<lambda>(c, v). Percent v (sum_list (map (\<lambda>t. \<bar>amount t\<bar>) transactions)))
                         (take 3 (by_cat_abs sv transactions)))))
            @ rest))"
  unfolding generate_spending_insights_def Let_def top_pct_numeric
  by (simp only: assms if_False sum.case append_Cons append_Nil report.inject sum.inject) blast

lemma sample_abs_values_distinct:
  "distinct (map snd (map (\<lambda>(c, v). (c, \<bar>v\<bar>)) (groupby_category_sum load_sample_transactions)))"
  by code_simp

lemma sample_top3_stable:
  "take 3 (by_cat_abs sort_values_desc load_sample_transactions) =
     [(''Savings'', 5000), (''Bills'', 2200), (''Investment'', 2000)]"
  by code_simp

text \<open>
  C6. The Spending Insights rank the categories by the absolute value of their signed
  sum, descending. Whatever the descending sort is, the ranking has one entry for each
  category that occurs, the value of an entry is the absolute value of the sum of the
  signed amounts of the rows of its category, the entries are in descending order of
  value, and the report on a numeric frame lists the first three with their rank. On the
  sample rows these are Savings (5000), Bills (2200) and Investment (2000). The
  percentages are kept as their operands and the order among equal values is left open.
\<close>

theorem C6_insights_ranking:
  assumes "descending_sort sort_values"
  shows
  "sorted_wrt (\<lambda>a b. snd b \<le> snd a) (by_cat_abs sort_values transactions)
   \<and> distinct (map fst (by_cat_abs sort_values transactions))
   \<and> set (by_cat_abs sort_values transactions) =
       (\<lambda>k. (k, \<bar>sum_list (map amount (filter (\<lambda>t. category t = Some k) transactions))\<bar>))
         ` {k. \<exists>t\<in>set transactions. category t = Some k}
   \<and> (transactions \<noteq> [] \<longrightarrow>
        (\<exists>rest. generate_spending_insights sort_values Numeric transactions profile =
           Inr (Lines (Lit ''**Top Spending Categories:**''
                  # map (\<lambda>(i, (cat, amt), p). Ranked i cat amt p)
                      (zip [1 ..< Suc (length (take 3 (by_cat_abs sort_values transactions)))]
                         (zip (take 3 (by_cat_abs sort_values transactions))
                            (map (\<lambda>(c, v). Percent v
                                    (sum_list (map (\<lambda>t. \<bar>amount t\<bar>) transactions)))
                               (take 3 (by_cat_abs sort_values transactions)))))
                  @ rest))))
   \<and> take 3 (by_cat_abs sort_values load_sample_transactions) =
       [(''Savings'', 5000), (''Bills'', 2200), (''Investment'', 2000)]"
proof -
  have s: "sorted_wrt (\<lambda>a b. snd b \<le> snd a) (by_cat_abs sort_values transactions)"
    unfolding by_cat_abs_def by (rule descending_sort_sorted [OF assms])
  have d: "distinct (map fst (by_cat_abs sort_values transactions))"
    by (rule by_cat_abs_keys(1) [OF assms])
  have v: "set (by_cat_abs sort_values transactions) =
       (\<lambda>k. (k, \<bar>sum_list (map amount (filter (\<lambda>t. category t = Some k) transactions))\<bar>))
         ` {k. \<exists>t\<in>set transactions. category t = Some k}"
    by (rule by_cat_abs_set [OF assms])
  have "by_cat_abs sort_values load_sample_transactions =
        by_cat_abs sort_values_desc load_sample_transactions"
    unfolding by_cat_abs_def
    by (rule descending_sort_unique [OF assms sample_abs_values_distinct])
  then have t: "take 3 (by_cat_abs sort_values load_sample_transactions) =
       [(''Savings'', 5000), (''Bills'', 2200), (''Investment'', 2000)]"
    by (simp only: sample_top3_stable)
  show ?thesis
    using insights_numeric_nonempty [of transactions sort_values profile]
    by (intro conjI impI s d v t)
qed

theorem C6_insights_ranking_witness:
  "descending_sort sort_values_desc
   \<and> repeated_category_transactions \<noteq> []
   \<and> sorted_wrt (\<lambda>a b. snd b \<le> snd a)
        (by_cat_abs sort_values_desc repeated_category_transactions)
   \<and> distinct (map fst (by_cat_abs sort_values_desc repeated_category_transactions))
   \<and> set (by_cat_abs sort_values_desc repeated_category_transactions) =
       (\<lambda>k. (k, \<bar>sum_list (map amount
                     (filter (\<lambda>t. category t = Some k) repeated_category_transactions))\<bar>))
         ` {k. \<exists>t\<in>set repeated_category_transactions. category t = Some k}
   \<and> (\<exists>rest. generate_spending_insights sort_values_desc Numeric
                repeated_category_transactions anonymous_profile =
          Inr (Lines (Lit ''**Top Spending Categories:**''
                 # map (\<lambda>(i, (cat, amt), p). Ranked i cat amt p)
                     (zip [1 ..< Suc (length (take 3
                             (by_cat_abs sort_values_desc repeated_category_transactions)))]
                        (zip (take 3 (by_cat_abs sort_values_desc repeated_category_transactions))
                           (map (\<lambda>(c, v). Percent v
                                   (sum_list (map (\<lambda>t. \<bar>amount t\<bar>)
                                      repeated_category_transactions)))
                              (take 3
                                (by_cat_abs sort_values_desc repeated_category_transactions)))))
                 @ rest)))
   \<and> by_cat_abs sort_values_desc repeated_category_transactions =
       [(''Savings'', 4000), (''Food'', 2999), (''Bills'', 2200)]
   \<and> generate_spending_insights sort_values_desc Numeric repeated_category_transactions
       anonymous_profile =
       Inr (Lines [Lit ''**Top Spending Categories:**'',
                   Ranked 1 ''Savings'' 4000 (Percent 4000 11199),
                   Ranked 2 ''Food'' 2999 (Percent 2999 11199),
                   Ranked 3 ''Bills'' 2200 (Percent 2200 11199),
                   Lit ''- Set weekly limits for dining out.'',
                   Lit ''- Automate savings and tax-saving investments.''])
   \<and> take 3 (by_cat_abs sort_values_desc load_sample_transactions) =
       [(''Savings'', 5000), (''Bills'', 2200), (''Investment'', 2000)]"
proof -
  note inst = C6_insights_ranking
    [OF sort_values_desc_descending, of repeated_category_transactions anonymous_profile]
  have ne: "repeated_category_transactions \<noteq> []"
    by (simp add: repeated_category_transactions_def)
  have s: "sorted_wrt (\<lambda>a b. snd b \<le> snd a)
        (by_cat_abs sort_values_desc repeated_category_transactions)"
    by (rule conjunct1 [OF inst])
  have d: "distinct (map fst (by_cat_abs sort_values_desc repeated_category_transactions))"
    by (rule conjunct1 [OF conjunct2 [OF inst]])
  have v: "set (by_cat_abs sort_values_desc repeated_category_transactions) =
       (\<lambda>k. (k, \<bar>sum_list (map amount
                     (filter (\<lambda>t. category t = Some k) repeated_category_transactions))\<bar>))
         ` {k. \<exists>t\<in>set repeated_category_transactions. category t = Some k}"
    by (rule conjunct1 [OF conjunct2 [OF conjunct2 [OF inst]]])
  have e: "\<exists>rest. generate_spending_insights sort_values_desc Numeric
                repeated_category_transactions anonymous_profile =
          Inr (Lines (Lit ''**Top Spending Categories:**''
                 # map (\<lambda>(i, (cat, amt), p). Ranked i cat amt p)
                     (zip [1 ..< Suc (length (take 3
                             (by_cat_abs sort_values_desc repeated_category_transactions)))]
                        (zip (take 3 (by_cat_abs sort_values_desc repeated_category_transactions))
                           (map (\<lambda>(c, v). Percent v
                                   (sum_list (map (\<lambda>t. \<bar>amount t\<bar>)
                                      repeated_category_transactions)))
                              (take 3
                                (by_cat_abs sort_values_desc repeated_category_transactions)))))
                 @ rest))"
    by (rule mp [OF conjunct1 [OF conjunct2 [OF conjunct2 [OF conjunct2 [OF inst]]]] ne])
  have t: "take 3 (by_cat_abs sort_values_desc load_sample_transactions) =
       [(''Savings'', 5000), (''Bills'', 2200), (''Investment'', 2000)]"
    by (rule conjunct2 [OF conjunct2 [OF conjunct2 [OF conjunct2 [OF inst]]]])
  have b: "by_cat_abs sort_values_desc repeated_category_transactions =
       [(''Savings'', 4000), (''Food'', 2999), (''Bills'', 2200)]"
    by code_simp
  have r: "generate_spending_insights sort_values_desc Numeric repeated_category_transactions
       anonymous_profile =
       Inr (Lines [Lit ''**Top Spending Categories:**'',
                   Ranked 1 ''Savings'' 4000 (Percent 4000 11199),
                   Ranked 2 ''Food'' 2999 (Percent 2999 11199),
                   Ranked 3 ''Bills'' 2200 (Percent 2200 11199),
                   Lit ''- Set weekly limits for dining out.'',
                   Lit ''- Automate savings and tax-saving investments.''])"
    by code_simp
  show ?thesis by (intro conjI) (rule sort_values_desc_descending ne s d v e b r t)+
qed

text \<open>
  C10. When the profile has no \<^verbatim>\<open>user_type\<close> key the components disagree on the
  default. The Spending Insights and the Tax Guidance take their non-Student branch (the
  output is that of a Professional profile, and the Tax Guidance differs from that of a
  Student profile), while the tone formatter with complexity "Auto" resolves to "Simple"
  and prepends the greeting it gives a Student profile, not the one it gives a
  Professional profile. The Spending Insights of a non-empty frame end with the
  non-Student tip whenever they return a report, and on a numeric frame they always do.
\<close>

theorem C10_missing_user_type_defaults:
  assumes "profile ''user_type'' = None"
  shows
    "generate_spending_insights sort_values amount_dtype transactions profile =
       generate_spending_insights sort_values amount_dtype transactions
         (profile(''user_type'' \<mapsto> PStr ''Professional''))
     \<and> (transactions \<noteq> [] \<longrightarrow>
          (\<exists>head. generate_spending_insights sort_values Numeric transactions profile =
             Inr (Lines (head @ [Lit ''- Automate savings and tax-saving investments.'']))))
     \<and> (\<forall>r. transactions \<noteq> []
            \<and> generate_spending_insights sort_values amount_dtype transactions profile = Inr r
          \<longrightarrow> (\<exists>head. r = Lines (head @ [Lit ''- Automate savings and tax-saving investments.''])))
     \<and> generate_tax_guidance profile =
         Str (join_nl [''**Tax Guidance (general educational):**'',
                       ''- Track salary components & use standard deductions.'',
                       ''- Save proofs for investments (PPF, ELSS, insurance).'',
                       ''- Consult a tax professional for accuracy.''])
     \<and> generate_tax_guidance profile =
         generate_tax_guidance (profile(''user_type'' \<mapsto> PStr ''Professional''))
     \<and> generate_tax_guidance profile \<noteq>
         generate_tax_guidance (profile(''user_type'' \<mapsto> PStr ''Student''))
     \<and> format_response_for_tone fill body profile ''Auto'' =
         ''Hey! Here'' @ [CHR 0x27] @ ''s a simple version:'' @ [CHR 0x0A, CHR 0x0A] @ fill body
     \<and> format_response_for_tone fill body profile ''Auto'' =
         format_response_for_tone fill body (profile(''user_type'' \<mapsto> PStr ''Student'')) ''Auto''
     \<and> format_response_for_tone fill body profile ''Auto'' \<noteq>
         format_response_for_tone fill body (profile(''user_type'' \<mapsto> PStr ''Professional''))
           ''Auto''"
proof -
  have i1: "generate_spending_insights sort_values amount_dtype transactions profile =
       generate_spending_insights sort_values amount_dtype transactions
         (profile(''user_type'' \<mapsto> PStr ''Professional''))"
    using assms by (simp add: generate_spending_insights_def)
  have i3: "\<forall>r. transactions \<noteq> []
            \<and> generate_spending_insights sort_values amount_dtype transactions profile = Inr r
          \<longrightarrow> (\<exists>head. r = Lines (head @ [Lit ''- Automate savings and tax-saving investments.'']))"
  proof (intro allI impI, elim conjE)
    fix r
    assume ne: "transactions \<noteq> []"
      and r: "generate_spending_insights sort_values amount_dtype transactions profile = Inr r"
    from r show "\<exists>head. r = Lines (head @ [Lit ''- Automate savings and tax-saving investments.''])"
      unfolding generate_spending_insights_def Let_def
      using assms ne
      by (simp only: if_False option.distinct sum.inject sum.distinct append_assoc [symmetric]
            split: sum.splits) (rule exI, rule sym, assumption)
  qed
  have i2: "transactions \<noteq> [] \<longrightarrow>
          (\<exists>head. generate_spending_insights sort_values Numeric transactions profile =
             Inr (Lines (head @ [Lit ''- Automate savings and tax-saving investments.''])))"
  proof
    assume ne: "transactions \<noteq> []"
    show "\<exists>head. generate_spending_insights sort_values Numeric transactions profile =
             Inr (Lines (head @ [Lit ''- Automate savings and tax-saving investments.'']))"
      unfolding generate_spending_insights_def Let_def top_pct_numeric
      using assms ne
      by (simp only: if_False option.distinct sum.case report.inject sum.inject
            append_assoc [symmetric]) blast
  qed
  have t1: "generate_tax_guidance profile =
         Str (join_nl [''**Tax Guidance (general educational):**'',
                       ''- Track salary components & use standard deductions.'',
                       ''- Save proofs for investments (PPF, ELSS, insurance).'',
                       ''- Consult a tax professional for accuracy.''])"
    using assms by (simp add: generate_tax_guidance_def)
  have t2: "generate_tax_guidance profile =
         generate_tax_guidance (profile(''user_type'' \<mapsto> PStr ''Professional''))"
    using assms by (simp add: generate_tax_guidance_def)
  have t3: "generate_tax_guidance profile \<noteq>
         generate_tax_guidance (profile(''user_type'' \<mapsto> PStr ''Student''))"
    using assms by (simp add: generate_tax_guidance_def join_nl_def)
  have f1: "format_response_for_tone fill body profile ''Auto'' =
         ''Hey! Here'' @ [CHR 0x27] @ ''s a simple version:'' @ [CHR 0x0A, CHR 0x0A] @ fill body"
    using assms by (simp add: format_response_for_tone_def)
  have f2: "format_response_for_tone fill body profile ''Auto'' =
         format_response_for_tone fill body (profile(''user_type'' \<mapsto> PStr ''Student'')) ''Auto''"
    using assms by (simp add: format_response_for_tone_def)
  have f3: "format_response_for_tone fill body profile ''Auto'' \<noteq>
         format_response_for_tone fill body (profile(''user_type'' \<mapsto> PStr ''Professional''))
           ''Auto''"
    using assms by (simp add: format_response_for_tone_def)
  show ?thesis by (intro conjI) (rule i1 i2 i3 t1 t2 t3 f1 f2 f3)+
qed

theorem C10_missing_user_type_defaults_witness:
  "anonymous_profile ''user_type'' = None
   \<and> generate_tax_guidance anonymous_profile \<noteq>
       generate_tax_guidance (anonymous_profile(''user_type'' \<mapsto> PStr ''Student''))
   \<and> format_response_for_tone (\<lambda>s. s) ''ok'' anonymous_profile ''Auto'' =
       format_response_for_tone (\<lambda>s. s) ''ok''
         (anonymous_profile(''user_type'' \<mapsto> PStr ''Student'')) ''Auto''
   \<and> format_response_for_tone (\<lambda>s. s) ''ok'' anonymous_profile ''Auto'' =
         ''Hey! Here'' @ [CHR 0x27] @ ''s a simple version:'' @ [CHR 0x0A, CHR 0x0A] @ ''ok''
   \<and> (\<exists>head. generate_spending_insights sort_values_desc Numeric load_sample_transactions
                anonymous_profile =
         Inr (Lines (head @ [Lit ''- Automate savings and tax-saving investments.''])))"
proof -
  have n: "anonymous_profile ''user_type'' = None"
    by (simp add: anonymous_profile_def)
  note inst = C10_missing_user_type_defaults
         [where profile = anonymous_profile and transactions = load_sample_transactions
            and sort_values = sort_values_desc and amount_dtype = Numeric
            and fill = "\<lambda>s. s" and body = "''ok''", OF n]
  have i: "\<exists>head. generate_spending_insights sort_values_desc Numeric load_sample_transactions
                anonymous_profile =
         Inr (Lines (head @ [Lit ''- Automate savings and tax-saving investments.'']))"
    by (rule mp [OF conjunct1 [OF conjunct2 [OF inst]] sample_nonempty])
  from inst n i show ?thesis by blast
qed

lemma is_prefix_iff: "is_prefix sub s \<longleftrightarrow> (\<exists>b. s = sub @ b)"
  by (induction sub s rule: is_prefix.induct) auto

lemma contains_iff: "contains sub s \<longleftrightarrow> (\<exists>a b. s = a @ sub @ b)"
proof (induction s)
  case Nil
  then show ?case by auto
next
  case (Cons c cs)
  show ?case
  proof
    assume "contains sub (c # cs)"
    then consider "is_prefix sub (c # cs)" | "contains sub cs" by auto
    then show "\<exists>a b. c # cs = a @ sub @ b"
    proof cases
      case 1
      then obtain b where "c # cs = sub @ b" by (auto simp: is_prefix_iff)
      then have "c # cs = [] @ sub @ b" by simp
      then show ?thesis by blast
    next
      case 2
      with Cons.IH obtain a b where "cs = a @ sub @ b" by blast
      then have "c # cs = (c # a) @ sub @ b" by simp
      then show ?thesis by blast
    qed
  next
    assume "\<exists>a b. c # cs = a @ sub @ b"
    then obtain a b where ab: "c # cs = a @ sub @ b" by blast
    show "contains sub (c # cs)"
    proof (cases a)
      case Nil
      with ab have "is_prefix sub (c # cs)" by (auto simp: is_prefix_iff)
      then show ?thesis by simp
    next
      case (Cons x a')
      with ab have "cs = a' @ sub @ b" by simp
      with Cons.IH have "contains sub cs" by blast
      then show ?thesis by simp
    qed
  qed
qed

text \<open>
  C4. The router lower-cases the message and takes the first rule whose keyword occurs in
  it as a substring, in the order budget, then spend / insights / save, then tax, then
  invest / sip, then the help message, whatever the sort of the library and the dtype of
  the amount column are. "what's my budget and spend" gives the Budget
  Summary, "investment sip advice" the Investment Tips and "hello" the help message.
\<close>

theorem C4_intent_routing:
  "(contains k m \<longleftrightarrow> (\<exists>a b. m = a @ k @ b))
   \<and> (contains ''budget'' (lower msg) \<longrightarrow>
        local_ai_response sort_values amount_dtype msg profile transactions complexity = summarize_budget sort_values transactions)
   \<and> (\<not> contains ''budget'' (lower msg)
        \<and> (contains ''spend'' (lower msg) \<or> contains ''insights'' (lower msg)
             \<or> contains ''save'' (lower msg)) \<longrightarrow>
        local_ai_response sort_values amount_dtype msg profile transactions complexity =
          generate_spending_insights sort_values amount_dtype transactions profile)
   \<and> (\<not> contains ''budget'' (lower msg)
        \<and> \<not> contains ''spend'' (lower msg) \<and> \<not> contains ''insights'' (lower msg)
        \<and> \<not> contains ''save'' (lower msg)
        \<and> contains ''tax'' (lower msg) \<longrightarrow>
        local_ai_response sort_values amount_dtype msg profile transactions complexity =
          Inr (generate_tax_guidance profile))
   \<and> (\<not> contains ''budget'' (lower msg)
        \<and> \<not> contains ''spend'' (lower msg) \<and> \<not> contains ''insights'' (lower msg)
        \<and> \<not> contains ''save'' (lower msg)
        \<and> \<not> contains ''tax'' (lower msg)
        \<and> (contains ''invest'' (lower msg) \<or> contains ''sip'' (lower msg)) \<longrightarrow>
        local_ai_response sort_values amount_dtype msg profile transactions complexity = Inr (Str investment_tips))
   \<and> (\<not> contains ''budget'' (lower msg)
        \<and> \<not> contains ''spend'' (lower msg) \<and> \<not> contains ''insights'' (lower msg)
        \<and> \<not> contains ''save'' (lower msg)
        \<and> \<not> contains ''tax'' (lower msg)
        \<and> \<not> contains ''invest'' (lower msg) \<and> \<not> contains ''sip'' (lower msg) \<longrightarrow>
        local_ai_response sort_values amount_dtype msg profile transactions complexity = Inr (Str help_message))
   \<and> local_ai_response sort_values amount_dtype (''what'' @ [CHR 0x27] @ ''s my budget and spend'')
         profile transactions complexity = summarize_budget sort_values transactions
   \<and> local_ai_response sort_values amount_dtype ''investment sip advice'' profile transactions complexity =
         Inr (Str investment_tips)
   \<and> local_ai_response sort_values amount_dtype ''hello'' profile transactions complexity = Inr (Str help_message)"
proof -
  have b: "contains ''budget'' (lower (''what'' @ [CHR 0x27] @ ''s my budget and spend''))"
    by code_simp
  have i: "\<not> contains ''budget'' (lower ''investment sip advice'')
           \<and> \<not> contains ''spend'' (lower ''investment sip advice'')
           \<and> \<not> contains ''insights'' (lower ''investment sip advice'')
           \<and> \<not> contains ''save'' (lower ''investment sip advice'')
           \<and> \<not> contains ''tax'' (lower ''investment sip advice'')
           \<and> contains ''invest'' (lower ''investment sip advice'')"
    by code_simp
  have h: "\<not> contains ''budget'' (lower ''hello'')
           \<and> \<not> contains ''spend'' (lower ''hello'')
           \<and> \<not> contains ''insights'' (lower ''hello'')
           \<and> \<not> contains ''save'' (lower ''hello'')
           \<and> \<not> contains ''tax'' (lower ''hello'')
           \<and> \<not> contains ''invest'' (lower ''hello'')
           \<and> \<not> contains ''sip'' (lower ''hello'')"
    by code_simp
  have r1: "local_ai_response sort_values amount_dtype (''what'' @ [CHR 0x27] @ ''s my budget and spend'')
         profile transactions complexity = summarize_budget sort_values transactions"
    using b by (simp only: local_ai_response_def Let_def if_True)
  have r2: "local_ai_response sort_values amount_dtype ''investment sip advice'' profile transactions complexity =
         Inr (Str investment_tips)"
    using i by (simp only: local_ai_response_def Let_def list_ex_Nil_iff list_ex_Cons_iff if_True if_False simp_thms)
  have r3: "local_ai_response sort_values amount_dtype ''hello'' profile transactions complexity = Inr (Str help_message)"
    using h by (simp only: local_ai_response_def Let_def list_ex_Nil_iff list_ex_Cons_iff if_True if_False simp_thms)
  have g: "(contains ''budget'' (lower msg) \<longrightarrow>
        local_ai_response sort_values amount_dtype msg profile transactions complexity = summarize_budget sort_values transactions)
   \<and> (\<not> contains ''budget'' (lower msg)
        \<and> (contains ''spend'' (lower msg) \<or> contains ''insights'' (lower msg)
             \<or> contains ''save'' (lower msg)) \<longrightarrow>
        local_ai_response sort_values amount_dtype msg profile transactions complexity =
          generate_spending_insights sort_values amount_dtype transactions profile)
   \<and> (\<not> contains ''budget'' (lower msg)
        \<and> \<not> contains ''spend'' (lower msg) \<and> \<not> contains ''insights'' (lower msg)
        \<and> \<not> contains ''save'' (lower msg)
        \<and> contains ''tax'' (lower msg) \<longrightarrow>
        local_ai_response sort_values amount_dtype msg profile transactions complexity =
          Inr (generate_tax_guidance profile))
   \<and> (\<not> contains ''budget'' (lower msg)
        \<and> \<not> contains ''spend'' (lower msg) \<and> \<not> contains ''insights'' (lower msg)
        \<and> \<not> contains ''save'' (lower msg)
        \<and> \<not> contains ''tax'' (lower msg)
        \<and> (contains ''invest'' (lower msg) \<or> contains ''sip'' (lower msg)) \<longrightarrow>
        local_ai_response sort_values amount_dtype msg profile transactions complexity = Inr (Str investment_tips))
   \<and> (\<not> contains ''budget'' (lower msg)
        \<and> \<not> contains ''spend'' (lower msg) \<and> \<not> contains ''insights'' (lower msg)
        \<and> \<not> contains ''save'' (lower msg)
        \<and> \<not> contains ''tax'' (lower msg)
        \<and> \<not> contains ''invest'' (lower msg) \<and> \<not> contains ''sip'' (lower msg) \<longrightarrow>
        local_ai_response sort_values amount_dtype msg profile transactions complexity = Inr (Str help_message))"
    by (simp only: local_ai_response_def Let_def list_ex_Nil_iff list_ex_Cons_iff) simp
  from contains_iff [of k m] g r1 r2 r3 show ?thesis by blast
qed

theorem C4_intent_routing_witness:
  "contains ''budget'' (lower ''My BUDGET, please'')
   \<and> local_ai_response sort_values_desc Numeric ''My BUDGET, please'' anonymous_profile [] ''Auto'' =
       Inr (Str ''No transactions to summarize.'')
   \<and> \<not> contains ''budget'' (lower ''Tax and SIP'') \<and> contains ''tax'' (lower ''Tax and SIP'')
   \<and> contains ''sip'' (lower ''Tax and SIP'')
   \<and> local_ai_response sort_values_desc Numeric ''Tax and SIP'' anonymous_profile [] ''Auto'' =
       Inr (generate_tax_guidance anonymous_profile)"
proof -
  have b: "contains ''budget'' (lower ''My BUDGET, please'')" by code_simp
  have t: "\<not> contains ''budget'' (lower ''Tax and SIP'')
        \<and> \<not> contains ''spend'' (lower ''Tax and SIP'')
        \<and> \<not> contains ''insights'' (lower ''Tax and SIP'')
        \<and> \<not> contains ''save'' (lower ''Tax and SIP'')
        \<and> contains ''tax'' (lower ''Tax and SIP'')
        \<and> contains ''sip'' (lower ''Tax and SIP'')" by code_simp
  have e: "summarize_budget sort_values_desc [] = Inr (Str ''No transactions to summarize.'')"
    by (simp add: summarize_budget_def)
  from C4_intent_routing [where sort_values = sort_values_desc and amount_dtype = Numeric
           and msg = "''My BUDGET, please''" and profile = anonymous_profile
         and transactions = "[]" and complexity = "''Auto''"] b e
  have 1: "local_ai_response sort_values_desc Numeric ''My BUDGET, please'' anonymous_profile [] ''Auto'' =
       Inr (Str ''No transactions to summarize.'')" by simp
  from C4_intent_routing [where sort_values = sort_values_desc and amount_dtype = Numeric
           and msg = "''Tax and SIP''" and profile = anonymous_profile
         and transactions = "[]" and complexity = "''Auto''"] t
  have 2: "local_ai_response sort_values_desc Numeric ''Tax and SIP'' anonymous_profile [] ''Auto'' =
       Inr (generate_tax_guidance anonymous_profile)" by blast
  from b t 1 2 show ?thesis by blast
qed

lemma to_datetime_cells:
  "to_datetime parse_date cs = Inr ds \<Longrightarrow>
   list_all2 (\<lambda>c d. cell_date parse_date c = Inr d) cs ds"
  by (induction cs arbitrary: ds) (auto split: sum.splits)

lemma to_datetime_total:
  "\<forall>c\<in>set cs. \<exists>d. cell_date parse_date c = Inr d \<Longrightarrow>
   \<exists>ds. to_datetime parse_date cs = Inr ds"
  by (induction cs) (auto split: sum.splits)

lemma to_datetime_raises:
  "c \<in> set cs \<Longrightarrow> cell_date parse_date c = Inl e \<Longrightarrow>
   \<exists>e'. to_datetime parse_date cs = Inl e'"
  by (induction cs) (auto split: sum.splits)

lemma dropna_rows:
  assumes "list_all2 (\<lambda>r d. cell_date parse_date (date_cell r) = Inr d) rs ds"
    and "\<forall>r\<in>set rs. \<exists>d. cell_date parse_date (date_cell r) = Inr (Some d)"
  shows "list_all2
           (\<lambda>t r. cell_date parse_date (date_cell r) = Inr (Some (date t))
                 \<and> cell_num parse_num (amount_cell r) = Some (amount t)
                 \<and> category t = category_cell r
                 \<and> description t = description_cell r)
           (dropna (zip rs (zip ds (map (\<lambda>r. cell_num parse_num (amount_cell r)) rs))))
           (filter (\<lambda>r. cell_num parse_num (amount_cell r) \<noteq> None) rs)"
  using assms
proof (induction rs ds rule: list_all2_induct)
  case Nil
  then show ?case by simp
next
  case (Cons r rs d ds)
  from Cons.prems obtain d' where d': "cell_date parse_date (date_cell r) = Inr (Some d')"
    by auto
  with Cons.hyps(1) have d: "d = Some d'" by simp
  from Cons.prems have rest: "\<forall>r\<in>set rs. \<exists>d. cell_date parse_date (date_cell r) = Inr (Some d)"
    by simp
  note IH = Cons.IH [OF rest]
  show ?case
  proof (cases "cell_num parse_num (amount_cell r)")
    case None
    with IH d show ?thesis by simp
  next
    case (Some a)
    with IH d d' show ?thesis by simp
  qed
qed

text \<open>
  C2. A table without the \<^verbatim>\<open>category\<close> column is rejected with the error raised for a
  missing required column. A table that has the required columns and a date in every
  row, with amounts that are no number in some rows, is parsed without error: the result
  holds, in order, one transaction for each row whose amount is a number, with the date,
  amount, category and description of that row, and nothing for the other rows.
\<close>

theorem C2_parse_schema_and_amounts:
  "(''category'' \<notin> set (columns df) \<longrightarrow>
      parse_transactions parse_date parse_num df = Inl ValueError_columns)
   \<and> (required \<subseteq> set (columns df)
        \<and> (\<forall>r\<in>set (rows df). \<exists>d. cell_date parse_date (date_cell r) = Inr (Some d)) \<longrightarrow>
      (\<exists>txs. parse_transactions parse_date parse_num df = Inr txs
         \<and> list_all2
             (\<lambda>t r. cell_date parse_date (date_cell r) = Inr (Some (date t))
                   \<and> cell_num parse_num (amount_cell r) = Some (amount t)
                   \<and> category t = category_cell r
                   \<and> description t = description_cell r)
             txs
             (filter (\<lambda>r. cell_num parse_num (amount_cell r) \<noteq> None) (rows df))))"
proof (intro conjI impI)
  assume "''category'' \<notin> set (columns df)"
  then have "\<not> required \<subseteq> set (columns df)" by (auto simp: required_def)
  then show "parse_transactions parse_date parse_num df = Inl ValueError_columns"
    by (simp add: parse_transactions_def)
next
  assume a: "required \<subseteq> set (columns df)
        \<and> (\<forall>r\<in>set (rows df). \<exists>d. cell_date parse_date (date_cell r) = Inr (Some d))"
  then have "\<forall>c\<in>set (map date_cell (rows df)). \<exists>d. cell_date parse_date c = Inr d"
    by auto
  from to_datetime_total [OF this]
  obtain ds where ds: "to_datetime parse_date (map date_cell (rows df)) = Inr ds" by blast
  from to_datetime_cells [OF ds]
  have l: "list_all2 (\<lambda>r d. cell_date parse_date (date_cell r) = Inr d) (rows df) ds"
    by (simp add: list_all2_map1)
  have p: "parse_transactions parse_date parse_num df =
        Inr (dropna (zip (rows df) (zip ds (map (\<lambda>r. cell_num parse_num (amount_cell r)) (rows df)))))"
    using a ds by (simp add: parse_transactions_def to_numeric_coerce_def comp_def)
  from dropna_rows [OF l, of parse_num] a p
  show "\<exists>txs. parse_transactions parse_date parse_num df = Inr txs
         \<and> list_all2
             (\<lambda>t r. cell_date parse_date (date_cell r) = Inr (Some (date t))
                   \<and> cell_num parse_num (amount_cell r) = Some (amount t)
                   \<and> category t = category_cell r
                   \<and> description t = description_cell r)
             txs
             (filter (\<lambda>r. cell_num parse_num (amount_cell r) \<noteq> None) (rows df))"
    by simp
qed

theorem C2_parse_schema_and_amounts_witness:
  "''category'' \<notin> set (columns no_category_table)
   \<and> parse_transactions parse_date_iso parse_num_int no_category_table = Inl ValueError_columns
   \<and> required \<subseteq> set (columns bad_amount_table)
   \<and> filter (\<lambda>r. cell_num parse_num_int (amount_cell r) \<noteq> None) (rows bad_amount_table) =
       [mk_row ''2025-08-01'' ''Food'' ''250'', mk_row ''2025-08-15'' ''Savings'' ''-5000'']
   \<and> parse_transactions parse_date_iso parse_num_int bad_amount_table =
       Inr [\<lparr>date = Timestamp 2025 8 1, category = Some ''Food'', amount = 250,
              description = None\<rparr>,
            \<lparr>date = Timestamp 2025 8 15, category = Some ''Savings'', amount = - 5000,
              description = None\<rparr>]
   \<and> (\<exists>txs. parse_transactions parse_date_iso parse_num_int bad_amount_table = Inr txs
         \<and> list_all2
             (\<lambda>t r. cell_date parse_date_iso (date_cell r) = Inr (Some (date t))
                   \<and> cell_num parse_num_int (amount_cell r) = Some (amount t)
                   \<and> category t = category_cell r
                   \<and> description t = description_cell r)
             txs
             (filter (\<lambda>r. cell_num parse_num_int (amount_cell r) \<noteq> None)
                (rows bad_amount_table)))"
proof -
  have c: "''category'' \<notin> set (columns no_category_table)" by code_simp
  have q: "required \<subseteq> set (columns bad_amount_table)" by code_simp
  have m: "map (\<lambda>r. cell_date parse_date_iso (date_cell r)) (rows bad_amount_table) =
             [Inr (Some (Timestamp 2025 8 1)), Inr (Some (Timestamp 2025 8 2)),
              Inr (Some (Timestamp 2025 8 15))]"
    by code_simp
  have d': "\<forall>r\<in>set (rows bad_amount_table).
              \<exists>d. cell_date parse_date_iso (date_cell r) = Inr (Some d)"
  proof
    fix r assume "r \<in> set (rows bad_amount_table)"
    then have "cell_date parse_date_iso (date_cell r)
                 \<in> set (map (\<lambda>r. cell_date parse_date_iso (date_cell r)) (rows bad_amount_table))"
      by simp
    then have "cell_date parse_date_iso (date_cell r)
                 \<in> set [Inr (Some (Timestamp 2025 8 1)), Inr (Some (Timestamp 2025 8 2)),
                        Inr (Some (Timestamp 2025 8 15))]"
      by (simp only: m)
    then show "\<exists>d. cell_date parse_date_iso (date_cell r) = Inr (Some d)"
      by auto
  qed
  have f: "filter (\<lambda>r. cell_num parse_num_int (amount_cell r) \<noteq> None) (rows bad_amount_table) =
       [mk_row ''2025-08-01'' ''Food'' ''250'', mk_row ''2025-08-15'' ''Savings'' ''-5000'']"
    by code_simp
  have e: "parse_transactions parse_date_iso parse_num_int bad_amount_table =
       Inr [\<lparr>date = Timestamp 2025 8 1, category = Some ''Food'', amount = 250,
              description = None\<rparr>,
            \<lparr>date = Timestamp 2025 8 15, category = Some ''Savings'', amount = - 5000,
              description = None\<rparr>]"
    by code_simp
  have 1: "parse_transactions parse_date_iso parse_num_int no_category_table =
             Inl ValueError_columns"
    by (rule mp [OF conjunct1 [OF C2_parse_schema_and_amounts
         [where df = no_category_table and parse_date = parse_date_iso
            and parse_num = parse_num_int]] c])
  have 2: "\<exists>txs. parse_transactions parse_date_iso parse_num_int bad_amount_table = Inr txs
         \<and> list_all2
             (\<lambda>t r. cell_date parse_date_iso (date_cell r) = Inr (Some (date t))
                   \<and> cell_num parse_num_int (amount_cell r) = Some (amount t)
                   \<and> category t = category_cell r
                   \<and> description t = description_cell r)
             txs
             (filter (\<lambda>r. cell_num parse_num_int (amount_cell r) \<noteq> None)
                (rows bad_amount_table))"
    by (rule mp [OF conjunct2 [OF C2_parse_schema_and_amounts
         [where df = bad_amount_table and parse_date = parse_date_iso
            and parse_num = parse_num_int]] conjI [OF q d']])
  show ?thesis by (intro conjI) (rule c 1 q f e 2)+
qed

text \<open>
  Whatever the date parser is, one date text that it rejects makes the whole parse raise.
\<close>

lemma parse_transactions_bad_date:
  assumes "required \<subseteq> set (columns df)"
    and "r \<in> set (rows df)"
    and "date_cell r = Some s"
    and "parse_date s = None"
  shows "\<exists>e. parse_transactions parse_date parse_num df = Inl e"
proof -
  have "cell_date parse_date (date_cell r) = Inl (DateParseError s)"
    using assms(3,4) by (simp add: cell_date_def)
  moreover have "date_cell r \<in> set (map date_cell (rows df))"
    using assms(2) by simp
  ultimately obtain e where "to_datetime parse_date (map date_cell (rows df)) = Inl e"
    using to_datetime_raises by blast
  then show ?thesis
    using assms(1) by (simp add: parse_transactions_def)
qed

text \<open>
  C3 does not hold of the code. The date column is converted with the default
  \<^verbatim>\<open>errors='raise'\<close> (line 41), unlike the amount column on the next line, which is
  converted with \<^verbatim>\<open>errors='coerce'\<close>: a row whose date is no date makes the whole parse
  raise, and no row is returned. Only a row whose date field is empty is dropped silently.
\<close>

theorem C3_unparsable_date_raises:
  "required \<subseteq> set (columns bad_date_table)
   \<and> parse_transactions parse_date_iso parse_num_int bad_date_table =
       Inl (DateParseError ''not-a-date'')
   \<and> parse_transactions parse_date_iso parse_num_int empty_date_table =
       Inr [\<lparr>date = Timestamp 2025 8 1, category = Some ''Food'', amount = 20,
              description = None\<rparr>]"
  by code_simp

end
